theory Spec2Isabelle
  imports Complex_Main
begin

section \<open>Dispatch engine: \<open>run_simulation\<close> (modules/simulation_engine.py)\<close>

text \<open>
  Numbers are modelled as exact reals first: the identities proved of this model are those
  of the algorithm. The engine's double-precision arithmetic, where rounding decides a
  bound, is modelled separately below. Python exceptions are values of \<open>py_error\<close>; the
  function's blanket \<open>except Exception\<close> reports the exception and returns \<open>None\<close>, which
  is modelled as \<open>Inl e\<close> (no ledger), \<open>e\<close> being the exception that was caught.
\<close>

datatype py_error = IndexError | KeyError | ZeroDivisionError

text \<open>One element of \<open>results\<close>: the dictionary \<open>hour_result\<close>. The \<open>timestamp\<close> entry is
  the index label of the demand series at position \<open>i\<close>; it is the position of the row in
  the list and is not stored again.\<close>

record hour_result =
  mine_load_kw :: real
  solar_power_kw :: real
  wind_power_kw :: real
  renewable_total_kw :: real
  net_load_kw :: real
  battery_charge_kw :: real
  battery_discharge_kw :: real
  battery_soc_kwh :: real
  battery_soc_percent :: real
  grid_buy_kw :: real
  grid_sell_kw :: real
  grid_cost_usd :: real
  grid_revenue_usd :: real
  net_grid_cost_usd :: real

text \<open>\<open>series.iloc[i]\<close> for \<open>i \<ge> 0\<close>: raises IndexError out of range.\<close>

definition iloc :: "real list \<Rightarrow> nat \<Rightarrow> py_error + real" where
  "iloc xs i = (if i < length xs then Inr (xs ! i) else Inl IndexError)"

text \<open>Python's \<open>a / b\<close> on numbers: raises ZeroDivisionError when \<open>b = 0\<close>. The capacity,
  the power and the efficiency are plain Python numbers, and with a capacity of 0 the state
  of charge stays the Python float 0.0, so the percentage of line 369 raises. (A numpy
  numerator would give \<open>inf\<close> or \<open>nan\<close> instead: this can only happen for an efficiency of 0
  after the first hour, so the results below that depend on it assume the efficiency is
  not 0.)\<close>

definition truediv :: "real \<Rightarrow> real \<Rightarrow> py_error + real" where
  "truediv a b = (if b = 0 then Inl ZeroDivisionError else Inr (a / b))"

text \<open>Python's three-argument \<open>min(a, b, c)\<close>.\<close>

definition min3 :: "real \<Rightarrow> real \<Rightarrow> real \<Rightarrow> real" where
  "min3 a b c = min a (min b c)"

text \<open>\<open>**kwargs\<close> is a dictionary from keyword to value; \<open>kwargs.get(k, d)\<close> reads it with a
  default. Keywords the function never reads are accepted and ignored.\<close>

type_synonym kwargs = "string \<rightharpoonup> real"

definition kwargs_get :: "kwargs \<Rightarrow> string \<Rightarrow> real \<Rightarrow> real" where
  "kwargs_get kw k d = (case kw k of None \<Rightarrow> d | Some v \<Rightarrow> v)"

text \<open>
  The body of the hourly loop (lines 311--390) at index \<open>i\<close>, entered with the battery state
  \<open>soc\<close>. It returns the row appended to \<open>results\<close> and the battery state left for the next
  iteration. The flows start at 0 and only the branch taken assigns them.
\<close>

definition simulate_hour ::
  "real list \<Rightarrow> real list \<Rightarrow> real list \<Rightarrow> real \<Rightarrow> real \<Rightarrow> real \<Rightarrow> real \<Rightarrow> real
     \<Rightarrow> nat \<Rightarrow> real \<Rightarrow> py_error + (hour_result \<times> real)" where
  "simulate_hour mine_load solar_power wind_power battery_capacity_kwh battery_power_kw
       grid_purchase_price grid_sell_price round_trip_efficiency i soc =
   (case iloc mine_load i of Inl e \<Rightarrow> Inl e | Inr load_kw \<Rightarrow>
    case iloc solar_power i of Inl e \<Rightarrow> Inl e | Inr solar_kw \<Rightarrow>
    case iloc wind_power i of Inl e \<Rightarrow> Inl e | Inr wind_kw \<Rightarrow>
    let renewable_generation_kw = solar_kw + wind_kw;
        net_load = load_kw - renewable_generation_kw
    in case
         (if net_load > 0 then
            let max_discharge = min3 battery_power_kw soc net_load;
                discharge = max_discharge;
                soc' = soc - discharge;
                remaining_deficit = net_load - discharge;
                buy = (if remaining_deficit > 0 then remaining_deficit else 0)
            in Inr (0, discharge, soc', buy, 0)
          else
            let excess_power_kw = - net_load
            in case truediv (battery_capacity_kwh - soc) round_trip_efficiency of
                 Inl e \<Rightarrow> Inl e
               | Inr room \<Rightarrow>
                   let max_charge = min3 battery_power_kw room excess_power_kw;
                       charge = max_charge;
                       soc' = soc + charge * round_trip_efficiency;
                       remaining_excess = excess_power_kw - charge;
                       sell = (if remaining_excess > 0 then remaining_excess else 0)
                   in Inr (charge, 0, soc', 0, sell))
       of Inl e \<Rightarrow> Inl e
        | Inr (charge, discharge, soc', buy, sell) \<Rightarrow>
            let cost = buy * grid_purchase_price / 1000;
                revenue = sell * grid_sell_price / 1000
            in case truediv soc' battery_capacity_kwh of
                 Inl e \<Rightarrow> Inl e
               | Inr soc_ratio \<Rightarrow>
                   Inr (\<lparr> mine_load_kw = load_kw,
                          solar_power_kw = solar_kw,
                          wind_power_kw = wind_kw,
                          renewable_total_kw = renewable_generation_kw,
                          net_load_kw = net_load,
                          battery_charge_kw = charge,
                          battery_discharge_kw = discharge,
                          battery_soc_kwh = soc',
                          battery_soc_percent = soc_ratio * 100,
                          grid_buy_kw = buy,
                          grid_sell_kw = sell,
                          grid_cost_usd = cost,
                          grid_revenue_usd = revenue,
                          net_grid_cost_usd = cost - revenue \<rparr>, soc'))"

text \<open>\<open>for i in range(len(mine_load))\<close>: \<open>k\<close> iterations remain, the next index is \<open>i\<close>,
  \<open>results\<close> is the list built so far. An exception leaves the loop at once.\<close>

fun hourly_loop ::
  "real list \<Rightarrow> real list \<Rightarrow> real list \<Rightarrow> real \<Rightarrow> real \<Rightarrow> real \<Rightarrow> real \<Rightarrow> real
     \<Rightarrow> nat \<Rightarrow> nat \<Rightarrow> real \<Rightarrow> hour_result list \<Rightarrow> py_error + hour_result list" where
  "hourly_loop ml sp wp cap pw pb ps eta 0 i soc results = Inr results"
| "hourly_loop ml sp wp cap pw pb ps eta (Suc k) i soc results =
     (case simulate_hour ml sp wp cap pw pb ps eta i soc of
        Inl e \<Rightarrow> Inl e
      | Inr (hour, soc') \<Rightarrow>
          hourly_loop ml sp wp cap pw pb ps eta k (Suc i) soc' (results @ [hour]))"

text \<open>Lines 295--297: the three keyword arguments the function reads, with their defaults.\<close>

definition grid_purchase_price :: "kwargs \<Rightarrow> real" where
  "grid_purchase_price kw = kwargs_get kw ''grid_purchase_price'' (15 / 100)"

definition grid_sell_price :: "kwargs \<Rightarrow> real" where
  "grid_sell_price kw = kwargs_get kw ''grid_sell_price'' (5 / 100)"

definition round_trip_efficiency :: "kwargs \<Rightarrow> real" where
  "round_trip_efficiency kw = kwargs_get kw ''round_trip_efficiency'' (85 / 100)"

text \<open>
  \<open>run_simulation\<close>. Capacity and power arrive in MWh and MW and are converted to kWh and
  kW; the battery starts at half its capacity. After the loop
  \<open>pd.DataFrame(results).set_index('timestamp')\<close> raises KeyError when \<open>results\<close> is empty
  (a frame without columns).
\<close>

definition run_simulation ::
  "real list \<Rightarrow> real list \<Rightarrow> real list \<Rightarrow> real \<Rightarrow> real \<Rightarrow> kwargs
     \<Rightarrow> py_error + hour_result list" where
  "run_simulation mine_load solar_power wind_power battery_capacity_mwh battery_power_mw kw =
   (let battery_capacity_kwh = battery_capacity_mwh * 1000;
        battery_power_kw = battery_power_mw * 1000;
        battery_soc_kwh0 = battery_capacity_kwh * (5 / 10)
    in case hourly_loop mine_load solar_power wind_power battery_capacity_kwh battery_power_kw
              (grid_purchase_price kw) (grid_sell_price kw) (round_trip_efficiency kw)
              (length mine_load) 0 battery_soc_kwh0 [] of
         Inl e \<Rightarrow> Inl e
       | Inr results \<Rightarrow> (if results = [] then Inl KeyError else Inr results))"

section \<open>Flow attributor: the accumulation of \<open>create_sankey_chart\<close> (modules/results_analyzer.py)\<close>

text \<open>The eight running totals of lines 205--212.\<close>

record flow_totals =
  solar_to_load :: real
  solar_to_battery :: real
  solar_to_grid :: real
  wind_to_load :: real
  wind_to_battery :: real
  wind_to_grid :: real
  grid_to_load :: real
  battery_to_load :: real

definition zero_totals :: flow_totals where
  "zero_totals = \<lparr> solar_to_load = 0, solar_to_battery = 0, solar_to_grid = 0,
                    wind_to_load = 0, wind_to_battery = 0, wind_to_grid = 0,
                    grid_to_load = 0, battery_to_load = 0 \<rparr>"

text \<open>
  The body of the hourly loop (lines 216--262) on one ledger row. A division by zero is
  modelled as a failure, so that its absence is something to prove. The inner test
  \<open>if renewable_total > 0\<close> of line 234 repeats the enclosing one and is always taken there.
  \<open>remaining_renewable\<close> is reassigned after the charge part; the export part reads the
  reassigned value.
\<close>

definition attribute_hour :: "flow_totals \<Rightarrow> hour_result \<Rightarrow> py_error + flow_totals" where
  "attribute_hour acc hour_data =
   (let load_kw = mine_load_kw hour_data;
        solar_kw = solar_power_kw hour_data;
        wind_kw = wind_power_kw hour_data;
        charge_kw = battery_charge_kw hour_data;
        discharge_kw = battery_discharge_kw hour_data;
        buy_kw = grid_buy_kw hour_data;
        sell_kw = grid_sell_kw hour_data;
        renewable_total = solar_kw + wind_kw
    in case
         (if renewable_total > 0 then
            let renewable_to_load = min renewable_total load_kw
            in case truediv solar_kw renewable_total of Inl e \<Rightarrow> Inl e | Inr solar_ratio \<Rightarrow>
               case truediv wind_kw renewable_total of Inl e \<Rightarrow> Inl e | Inr wind_ratio \<Rightarrow>
               let acc1 = acc\<lparr> solar_to_load := solar_to_load acc + renewable_to_load * solar_ratio,
                               wind_to_load := wind_to_load acc + renewable_to_load * wind_ratio \<rparr>;
                   remaining_renewable = renewable_total - renewable_to_load
               in if remaining_renewable > 0 then
                    let charge_from_renewable = min charge_kw remaining_renewable;
                        acc2 = (if charge_kw > 0 then
                                  acc1\<lparr> solar_to_battery :=
                                           solar_to_battery acc1 + charge_from_renewable * solar_ratio,
                                         wind_to_battery :=
                                           wind_to_battery acc1 + charge_from_renewable * wind_ratio \<rparr>
                                else acc1);
                        remaining_renewable' = (if charge_kw > 0
                                                then remaining_renewable - charge_from_renewable
                                                else remaining_renewable);
                        sell_from_renewable = min sell_kw remaining_renewable'
                    in if remaining_renewable' > 0 \<and> sell_kw > 0 then
                         Inr (acc2\<lparr> solar_to_grid :=
                                       solar_to_grid acc2 + sell_from_renewable * solar_ratio,
                                     wind_to_grid :=
                                       wind_to_grid acc2 + sell_from_renewable * wind_ratio \<rparr>)
                       else Inr acc2
                  else Inr acc1
          else Inr acc)
       of Inl e \<Rightarrow> Inl e
        | Inr acc' \<Rightarrow>
            Inr (acc'\<lparr> grid_to_load := grid_to_load acc' + buy_kw,
                       battery_to_load := battery_to_load acc' + discharge_kw \<rparr>))"

text \<open>\<open>for i in range(len(simulation_results_df))\<close> over the rows \<open>df.iloc[i]\<close>.\<close>

fun attribution_loop :: "flow_totals \<Rightarrow> hour_result list \<Rightarrow> py_error + flow_totals" where
  "attribution_loop acc [] = Inr acc"
| "attribution_loop acc (hour_data # rest) =
     (case attribute_hour acc hour_data of
        Inl e \<Rightarrow> Inl e
      | Inr acc' \<Rightarrow> attribution_loop acc' rest)"

text \<open>Lines 265--272: each total is converted from kWh to GWh.\<close>

definition to_gwh :: "flow_totals \<Rightarrow> flow_totals" where
  "to_gwh acc =
     \<lparr> solar_to_load = solar_to_load acc / 1000000,
       solar_to_battery = solar_to_battery acc / 1000000,
       solar_to_grid = solar_to_grid acc / 1000000,
       wind_to_load = wind_to_load acc / 1000000,
       wind_to_battery = wind_to_battery acc / 1000000,
       wind_to_grid = wind_to_grid acc / 1000000,
       grid_to_load = grid_to_load acc / 1000000,
       battery_to_load = battery_to_load acc / 1000000 \<rparr>"

text \<open>The flows of \<open>create_sankey_chart\<close> before the links are built (lines 204--272).\<close>

definition sankey_flows :: "hour_result list \<Rightarrow> py_error + flow_totals" where
  "sankey_flows simulation_results_df =
     (case attribution_loop zero_totals simulation_results_df of
        Inl e \<Rightarrow> Inl e
      | Inr acc \<Rightarrow> Inr (to_gwh acc))"

text \<open>The ledger's own annual totals, lines 196--198: a column sum converted to GWh.\<close>

definition total_load_consumption_gwh :: "hour_result list \<Rightarrow> real" where
  "total_load_consumption_gwh df = sum_list (map mine_load_kw df) / 1000000"

definition total_battery_charge_gwh :: "hour_result list \<Rightarrow> real" where
  "total_battery_charge_gwh df = sum_list (map battery_charge_kw df) / 1000000"

definition total_grid_sell_gwh :: "hour_result list \<Rightarrow> real" where
  "total_grid_sell_gwh df = sum_list (map grid_sell_kw df) / 1000000"

text \<open>A ledger row whose demand, generation, charge and export are nonnegative and whose
  flows balance the way one dispatch step leaves them: in deficit nothing is charged or
  exported and import plus discharge cover the gap; otherwise nothing is imported or
  discharged and charge plus export take up the surplus.\<close>

definition balanced_row :: "hour_result \<Rightarrow> bool" where
  "balanced_row h =
     (0 \<le> mine_load_kw h \<and> 0 \<le> solar_power_kw h + wind_power_kw h \<and>
      0 \<le> battery_charge_kw h \<and> 0 \<le> grid_sell_kw h \<and>
      (if solar_power_kw h + wind_power_kw h < mine_load_kw h then
         battery_charge_kw h = 0 \<and> grid_sell_kw h = 0 \<and>
         grid_buy_kw h + battery_discharge_kw h
           = mine_load_kw h - (solar_power_kw h + wind_power_kw h)
       else
         grid_buy_kw h = 0 \<and> battery_discharge_kw h = 0 \<and>
         battery_charge_kw h + grid_sell_kw h
           = solar_power_kw h + wind_power_kw h - mine_load_kw h))"

text \<open>The battery state on entry to step \<open>i\<close> of a ledger: the initial state for the first
  step, the state recorded by the preceding row afterwards.\<close>

definition soc_before :: "real \<Rightarrow> hour_result list \<Rightarrow> nat \<Rightarrow> real" where
  "soc_before soc0 ledger i = (if i = 0 then soc0 else battery_soc_kwh (ledger ! (i - 1)))"

section \<open>The dispatch engine in double precision\<close>

text \<open>
  The engine computes in IEEE 754 doubles (Python floats and numpy float64). A double is
  modelled by the real number it denotes, and every arithmetic operation returns the
  exact result rounded to the nearest double, ties to the even significand, as IEEE 754
  prescribes for \<open>+\<close>, \<open>-\<close>, \<open>*\<close> and \<open>/\<close>. Comparison, negation and \<open>min\<close> are exact. The
  exponent range is bounded below (subnormal numbers have the fixed spacing \<open>2 ^ -1074\<close>)
  and not above: overflow to infinity and NaN are outside the model.
\<close>

text \<open>Rounding a real to the nearest integer, a tie going to the even neighbour.\<close>

definition round_half_even :: "real \<Rightarrow> int" where
  "round_half_even q =
     (let n = \<lfloor>q\<rfloor>; r = q - of_int n
      in if r < 1 / 2 then n else if 1 / 2 < r then n + 1 else if even n then n else n + 1)"

text \<open>The binary exponent \<open>e\<close> of \<open>x > 0\<close>, with \<open>2 ^ e \<le> x < 2 ^ (e + 1)\<close>, found by halving or
  doubling at most \<open>k\<close> times.\<close>

fun binade :: "nat \<Rightarrow> real \<Rightarrow> int" where
  "binade k x =
     (if k = 0 then 0
      else if 2 \<le> x then binade (k - 1) (x / 2) + 1
      else if x < 1 then binade (k - 1) (x * 2) - 1
      else 0)"

declare binade.simps [simp del]

text \<open>The spacing of the doubles with binary exponent \<open>e\<close>: 53 significant bits.\<close>

definition ulp_of :: "int \<Rightarrow> real" where
  "ulp_of e = (if 52 \<le> e then 2 ^ nat (e - 52) else 1 / 2 ^ nat (52 - e))"

text \<open>The double nearest to \<open>x\<close>. It is also what a decimal literal such as \<open>0.3\<close> denotes.\<close>

definition fl :: "real \<Rightarrow> real" where
  "fl x =
     (if x = 0 then 0
      else let u = ulp_of (max (binade 2200 \<bar>x\<bar>) (- 1022))
           in of_int (round_half_even (x / u)) * u)"

definition fl_add :: "real \<Rightarrow> real \<Rightarrow> real" where
  "fl_add a b = fl (a + b)"

definition fl_sub :: "real \<Rightarrow> real \<Rightarrow> real" where
  "fl_sub a b = fl (a - b)"

definition fl_mul :: "real \<Rightarrow> real \<Rightarrow> real" where
  "fl_mul a b = fl (a * b)"

definition fl_div :: "real \<Rightarrow> real \<Rightarrow> py_error + real" where
  "fl_div a b = (if b = 0 then Inl ZeroDivisionError else Inr (fl (a / b)))"

text \<open>
  The loop body of lines 311--390 again, operation by operation in the order Python
  evaluates them: \<open>soc += charge * eta\<close> rounds the product and then the sum,
  \<open>buy * price / 1000\<close> the product and then the quotient.
\<close>

definition simulate_hour_f64 ::
  "real list \<Rightarrow> real list \<Rightarrow> real list \<Rightarrow> real \<Rightarrow> real \<Rightarrow> real \<Rightarrow> real \<Rightarrow> real
     \<Rightarrow> nat \<Rightarrow> real \<Rightarrow> py_error + (hour_result \<times> real)" where
  "simulate_hour_f64 mine_load solar_power wind_power battery_capacity_kwh battery_power_kw
       purchase_price sell_price efficiency i soc =
   (case iloc mine_load i of Inl e \<Rightarrow> Inl e | Inr load_kw \<Rightarrow>
    case iloc solar_power i of Inl e \<Rightarrow> Inl e | Inr solar_kw \<Rightarrow>
    case iloc wind_power i of Inl e \<Rightarrow> Inl e | Inr wind_kw \<Rightarrow>
    let renewable_generation_kw = fl_add solar_kw wind_kw;
        net_load = fl_sub load_kw renewable_generation_kw
    in case
         (if net_load > 0 then
            let max_discharge = min3 battery_power_kw soc net_load;
                discharge = max_discharge;
                soc' = fl_sub soc discharge;
                remaining_deficit = fl_sub net_load discharge;
                buy = (if remaining_deficit > 0 then remaining_deficit else 0)
            in Inr (0, discharge, soc', buy, 0)
          else
            let excess_power_kw = - net_load
            in case fl_div (fl_sub battery_capacity_kwh soc) efficiency of
                 Inl e \<Rightarrow> Inl e
               | Inr room \<Rightarrow>
                   let max_charge = min3 battery_power_kw room excess_power_kw;
                       charge = max_charge;
                       soc' = fl_add soc (fl_mul charge efficiency);
                       remaining_excess = fl_sub excess_power_kw charge;
                       sell = (if remaining_excess > 0 then remaining_excess else 0)
                   in Inr (charge, 0, soc', 0, sell))
       of Inl e \<Rightarrow> Inl e
        | Inr (charge, discharge, soc', buy, sell) \<Rightarrow>
            case fl_div (fl_mul buy purchase_price) 1000 of Inl e \<Rightarrow> Inl e | Inr cost \<Rightarrow>
            case fl_div (fl_mul sell sell_price) 1000 of Inl e \<Rightarrow> Inl e | Inr revenue \<Rightarrow>
            case fl_div soc' battery_capacity_kwh of
              Inl e \<Rightarrow> Inl e
            | Inr soc_ratio \<Rightarrow>
                Inr (\<lparr> mine_load_kw = load_kw,
                       solar_power_kw = solar_kw,
                       wind_power_kw = wind_kw,
                       renewable_total_kw = renewable_generation_kw,
                       net_load_kw = net_load,
                       battery_charge_kw = charge,
                       battery_discharge_kw = discharge,
                       battery_soc_kwh = soc',
                       battery_soc_percent = fl_mul soc_ratio 100,
                       grid_buy_kw = buy,
                       grid_sell_kw = sell,
                       grid_cost_usd = cost,
                       grid_revenue_usd = revenue,
                       net_grid_cost_usd = fl_sub cost revenue \<rparr>, soc'))"

fun hourly_loop_f64 ::
  "real list \<Rightarrow> real list \<Rightarrow> real list \<Rightarrow> real \<Rightarrow> real \<Rightarrow> real \<Rightarrow> real \<Rightarrow> real
     \<Rightarrow> nat \<Rightarrow> nat \<Rightarrow> real \<Rightarrow> hour_result list \<Rightarrow> py_error + hour_result list" where
  "hourly_loop_f64 ml sp wp cap pw pb ps eta 0 i soc results = Inr results"
| "hourly_loop_f64 ml sp wp cap pw pb ps eta (Suc k) i soc results =
     (case simulate_hour_f64 ml sp wp cap pw pb ps eta i soc of
        Inl e \<Rightarrow> Inl e
      | Inr (hour, soc') \<Rightarrow>
          hourly_loop_f64 ml sp wp cap pw pb ps eta k (Suc i) soc' (results @ [hour]))"

text \<open>\<open>run_simulation\<close> in doubles: the arguments and keyword values are doubles, the
  defaults and the constant \<open>0.5\<close> are the doubles their literals denote.\<close>

definition run_simulation_f64 ::
  "real list \<Rightarrow> real list \<Rightarrow> real list \<Rightarrow> real \<Rightarrow> real \<Rightarrow> kwargs
     \<Rightarrow> py_error + hour_result list" where
  "run_simulation_f64 mine_load solar_power wind_power battery_capacity_mwh battery_power_mw kw =
   (let purchase_price = kwargs_get kw ''grid_purchase_price'' (fl (15 / 100));
        sell_price = kwargs_get kw ''grid_sell_price'' (fl (5 / 100));
        efficiency = kwargs_get kw ''round_trip_efficiency'' (fl (85 / 100));
        battery_capacity_kwh = fl_mul battery_capacity_mwh 1000;
        battery_power_kw = fl_mul battery_power_mw 1000;
        battery_soc_kwh0 = fl_mul battery_capacity_kwh (fl (5 / 10))
    in case hourly_loop_f64 mine_load solar_power wind_power battery_capacity_kwh
              battery_power_kw purchase_price sell_price efficiency
              (length mine_load) 0 battery_soc_kwh0 [] of
         Inl e \<Rightarrow> Inl e
       | Inr results \<Rightarrow> (if results = [] then Inl KeyError else Inr results))"

section \<open>The hourly step\<close>

lemma min3_le1: "min3 a b c \<le> a"
  by (simp add: min3_def)

lemma min3_le2: "min3 a b c \<le> b"
  by (simp add: min3_def)

lemma min3_le3: "min3 a b c \<le> c"
  by (simp add: min3_def)

lemma min3_ge: "x \<le> a \<Longrightarrow> x \<le> b \<Longrightarrow> x \<le> c \<Longrightarrow> x \<le> min3 a b c"
  by (simp add: min3_def)

text \<open>Everything a successful step records, read off the loop body.\<close>

lemma simulate_hour_fields:
  assumes "simulate_hour ml sp wp C P pb ps eta i soc = Inr (r, s)"
  shows "i < length ml \<and> i < length sp \<and> i < length wp \<and> C \<noteq> 0 \<and>
         s = battery_soc_kwh r \<and>
         mine_load_kw r = ml ! i \<and> solar_power_kw r = sp ! i \<and> wind_power_kw r = wp ! i \<and>
         renewable_total_kw r = sp ! i + wp ! i \<and>
         net_load_kw r = ml ! i - (sp ! i + wp ! i) \<and>
         grid_cost_usd r = grid_buy_kw r * pb / 1000 \<and>
         grid_revenue_usd r = grid_sell_kw r * ps / 1000 \<and>
         net_grid_cost_usd r = grid_cost_usd r - grid_revenue_usd r \<and>
         battery_soc_percent r = battery_soc_kwh r / C * 100 \<and>
         (if 0 < net_load_kw r then
            battery_discharge_kw r = min3 P soc (net_load_kw r) \<and>
            battery_soc_kwh r = soc - battery_discharge_kw r \<and>
            grid_buy_kw r = (if 0 < net_load_kw r - battery_discharge_kw r
                             then net_load_kw r - battery_discharge_kw r else 0) \<and>
            battery_charge_kw r = 0 \<and> grid_sell_kw r = 0
          else
            eta \<noteq> 0 \<and>
            battery_charge_kw r = min3 P ((C - soc) / eta) (- net_load_kw r) \<and>
            battery_soc_kwh r = soc + battery_charge_kw r * eta \<and>
            grid_sell_kw r = (if 0 < - net_load_kw r - battery_charge_kw r
                              then - net_load_kw r - battery_charge_kw r else 0) \<and>
            battery_discharge_kw r = 0 \<and> grid_buy_kw r = 0)"
  using assms unfolding simulate_hour_def iloc_def truediv_def
  by (auto simp: Let_def split: if_splits)

lemma simulate_hour_deficit:
  assumes "simulate_hour ml sp wp C P pb ps eta i soc = Inr (r, s)"
    and "0 < net_load_kw r"
  shows "battery_discharge_kw r = min3 P soc (net_load_kw r)"
    and "battery_soc_kwh r = soc - battery_discharge_kw r"
    and "grid_buy_kw r = net_load_kw r - battery_discharge_kw r"
    and "battery_charge_kw r = 0" and "grid_sell_kw r = 0"
proof -
  note f = simulate_hour_fields [OF assms(1)]
  show d: "battery_discharge_kw r = min3 P soc (net_load_kw r)"
    using f assms(2) by simp
  show "battery_soc_kwh r = soc - battery_discharge_kw r"
    using f assms(2) by simp
  have "battery_discharge_kw r \<le> net_load_kw r"
    unfolding d by (rule min3_le3)
  moreover have "grid_buy_kw r = (if 0 < net_load_kw r - battery_discharge_kw r
                             then net_load_kw r - battery_discharge_kw r else 0)"
    using f assms(2) by simp
  ultimately show "grid_buy_kw r = net_load_kw r - battery_discharge_kw r"
    by simp
  show "battery_charge_kw r = 0" using f assms(2) by simp
  show "grid_sell_kw r = 0" using f assms(2) by simp
qed

lemma simulate_hour_surplus:
  assumes "simulate_hour ml sp wp C P pb ps eta i soc = Inr (r, s)"
    and "\<not> 0 < net_load_kw r"
  shows "eta \<noteq> 0"
    and "battery_charge_kw r = min3 P ((C - soc) / eta) (- net_load_kw r)"
    and "battery_soc_kwh r = soc + battery_charge_kw r * eta"
    and "grid_sell_kw r = - net_load_kw r - battery_charge_kw r"
    and "battery_discharge_kw r = 0" and "grid_buy_kw r = 0"
proof -
  note f = simulate_hour_fields [OF assms(1)]
  show "eta \<noteq> 0" using f assms(2) by simp
  show c: "battery_charge_kw r = min3 P ((C - soc) / eta) (- net_load_kw r)"
    using f assms(2) by simp
  show "battery_soc_kwh r = soc + battery_charge_kw r * eta"
    using f assms(2) by simp
  have "battery_charge_kw r \<le> - net_load_kw r"
    unfolding c by (rule min3_le3)
  moreover have "grid_sell_kw r = (if 0 < - net_load_kw r - battery_charge_kw r
                              then - net_load_kw r - battery_charge_kw r else 0)"
    using f assms(2) by simp
  ultimately show "grid_sell_kw r = - net_load_kw r - battery_charge_kw r"
    by simp
  show "battery_discharge_kw r = 0" using f assms(2) by simp
  show "grid_buy_kw r = 0" using f assms(2) by simp
qed

text \<open>A step that starts inside the battery's range stays inside it, and its flows are
  nonnegative and within the power limit.\<close>

lemma simulate_hour_bounds:
  assumes run: "simulate_hour ml sp wp C P pb ps eta i soc = Inr (r, s)"
    and soc: "0 \<le> soc" "soc \<le> C" and P: "0 \<le> P" and eta: "0 < eta"
  shows "0 \<le> battery_soc_kwh r" and "battery_soc_kwh r \<le> C"
    and "0 \<le> battery_charge_kw r" and "battery_charge_kw r \<le> P"
    and "0 \<le> battery_discharge_kw r" and "battery_discharge_kw r \<le> P"
    and "0 \<le> grid_buy_kw r" and "0 \<le> grid_sell_kw r"
proof -
  have all: "0 \<le> battery_soc_kwh r \<and> battery_soc_kwh r \<le> C \<and>
        0 \<le> battery_charge_kw r \<and> battery_charge_kw r \<le> P \<and>
        0 \<le> battery_discharge_kw r \<and> battery_discharge_kw r \<le> P \<and>
        0 \<le> grid_buy_kw r \<and> 0 \<le> grid_sell_kw r"
  proof (cases "0 < net_load_kw r")
    case True
    note d = simulate_hour_deficit [OF run True]
    have lo: "0 \<le> battery_discharge_kw r"
      unfolding d(1) using soc P True by (intro min3_ge) simp_all
    have hi: "battery_discharge_kw r \<le> soc" "battery_discharge_kw r \<le> P"
      "battery_discharge_kw r \<le> net_load_kw r"
      unfolding d(1) by (rule min3_le2, rule min3_le1, rule min3_le3)
    show ?thesis using d lo hi soc P by simp
  next
    case False
    note c = simulate_hour_surplus [OF run False]
    have room: "0 \<le> (C - soc) / eta" using soc eta by simp
    have lo: "0 \<le> battery_charge_kw r"
      unfolding c(2) using room P False by (intro min3_ge) simp_all
    have hi: "battery_charge_kw r \<le> (C - soc) / eta" "battery_charge_kw r \<le> P"
      "battery_charge_kw r \<le> - net_load_kw r"
      unfolding c(2) by (rule min3_le2, rule min3_le1, rule min3_le3)
    have "battery_charge_kw r * eta \<le> C - soc"
      using hi(1) eta by (simp add: pos_le_divide_eq)
    moreover have "0 \<le> battery_charge_kw r * eta" using lo eta by simp
    ultimately show ?thesis using c lo hi soc P by simp
  qed
  show "0 \<le> battery_soc_kwh r" and "battery_soc_kwh r \<le> C"
    and "0 \<le> battery_charge_kw r" and "battery_charge_kw r \<le> P"
    and "0 \<le> battery_discharge_kw r" and "battery_discharge_kw r \<le> P"
    and "0 \<le> grid_buy_kw r" and "0 \<le> grid_sell_kw r"
    using all by simp_all
qed

section \<open>The run as a sequence of steps\<close>

text \<open>A successful loop appends one row per iteration, each the result of the step
  entered with the state its predecessor left.\<close>

lemma hourly_loop_rows:
  "hourly_loop ml sp wp C P pb ps eta k i soc acc = Inr res \<Longrightarrow>
   \<exists>rows. res = acc @ rows \<and> length rows = k \<and>
     (\<forall>j<k. simulate_hour ml sp wp C P pb ps eta (i + j) (soc_before soc rows j)
              = Inr (rows ! j, battery_soc_kwh (rows ! j)))"
proof (induction k arbitrary: i soc acc)
  case 0
  then show ?case by simp
next
  case (Suc k)
  from Suc.prems obtain hour soc' where
    step: "simulate_hour ml sp wp C P pb ps eta i soc = Inr (hour, soc')"
    and rest: "hourly_loop ml sp wp C P pb ps eta k (Suc i) soc' (acc @ [hour]) = Inr res"
    by (auto split: sum.splits)
  have soc': "soc' = battery_soc_kwh hour"
    using simulate_hour_fields [OF step] by simp
  from Suc.IH [OF rest] obtain rows where
    res: "res = (acc @ [hour]) @ rows" and len: "length rows = k"
    and rows: "\<forall>j<k. simulate_hour ml sp wp C P pb ps eta (Suc i + j) (soc_before soc' rows j)
              = Inr (rows ! j, battery_soc_kwh (rows ! j))"
    by blast
  have "simulate_hour ml sp wp C P pb ps eta (i + j) (soc_before soc (hour # rows) j)
              = Inr ((hour # rows) ! j, battery_soc_kwh ((hour # rows) ! j))"
    if "j < Suc k" for j
  proof (cases j)
    case 0
    then show ?thesis using step soc' by (simp add: soc_before_def)
  next
    case (Suc j')
    then have "j' < k" using that by simp
    with rows have "simulate_hour ml sp wp C P pb ps eta (Suc i + j') (soc_before soc' rows j')
              = Inr (rows ! j', battery_soc_kwh (rows ! j'))" by blast
    moreover have "soc_before soc (hour # rows) (Suc j') = soc_before soc' rows j'"
      by (cases j') (simp_all add: soc_before_def soc')
    ultimately show ?thesis using Suc by simp
  qed
  then show ?case using res len by (intro exI [of _ "hour # rows"]) simp
qed

lemma hourly_loop_total:
  "i + k \<le> length ml \<Longrightarrow> i + k \<le> length sp \<Longrightarrow> i + k \<le> length wp \<Longrightarrow> C \<noteq> 0 \<Longrightarrow> eta \<noteq> 0 \<Longrightarrow>
   \<exists>res. hourly_loop ml sp wp C P pb ps eta k i soc acc = Inr res \<and> length res = length acc + k"
proof (induction k arbitrary: i soc acc)
  case 0
  then show ?case by simp
next
  case (Suc k)
  have "\<exists>hour soc'. simulate_hour ml sp wp C P pb ps eta i soc = Inr (hour, soc')"
    using Suc.prems unfolding simulate_hour_def iloc_def truediv_def
    by (simp add: Let_def)
  then obtain hour soc' where
    step: "simulate_hour ml sp wp C P pb ps eta i soc = Inr (hour, soc')" by blast
  from Suc.prems have "Suc i + k \<le> length ml" "Suc i + k \<le> length sp" "Suc i + k \<le> length wp"
    by simp_all
  from Suc.IH [OF this Suc.prems(4,5), of soc' "acc @ [hour]"] step
  show ?case by auto
qed

lemma run_simulation_rows:
  assumes "run_simulation ml sp wp cap pw kw = Inr ledger"
  shows "ledger \<noteq> []" and "length ledger = length ml"
    and "\<And>j. j < length ledger \<Longrightarrow>
          simulate_hour ml sp wp (cap * 1000) (pw * 1000)
             (grid_purchase_price kw)
             (grid_sell_price kw)
             (round_trip_efficiency kw)
             j (soc_before (cap * 1000 * (5 / 10)) ledger j)
          = Inr (ledger ! j, battery_soc_kwh (ledger ! j))"
proof -
  from assms have loop: "hourly_loop ml sp wp (cap * 1000) (pw * 1000)
             (grid_purchase_price kw)
             (grid_sell_price kw)
             (round_trip_efficiency kw)
             (length ml) 0 (cap * 1000 * (5 / 10)) [] = Inr ledger"
    and ne: "ledger \<noteq> []"
    unfolding run_simulation_def Let_def by (auto split: sum.splits if_splits)
  from hourly_loop_rows [OF loop] obtain rows where
    r: "ledger = rows" "length rows = length ml"
    "\<forall>j<length ml. simulate_hour ml sp wp (cap * 1000) (pw * 1000)
             (grid_purchase_price kw)
             (grid_sell_price kw)
             (round_trip_efficiency kw)
             (0 + j) (soc_before (cap * 1000 * (5 / 10)) rows j)
          = Inr (rows ! j, battery_soc_kwh (rows ! j))"
    by auto
  show "ledger \<noteq> []" by (rule ne)
  show "length ledger = length ml" using r by simp
  show "simulate_hour ml sp wp (cap * 1000) (pw * 1000)
             (grid_purchase_price kw)
             (grid_sell_price kw)
             (round_trip_efficiency kw)
             j (soc_before (cap * 1000 * (5 / 10)) ledger j)
          = Inr (ledger ! j, battery_soc_kwh (ledger ! j))" if "j < length ledger" for j
    using r that by simp
qed

lemma run_simulation_soc_range:
  assumes run: "run_simulation ml sp wp cap pw kw = Inr ledger"
    and cap: "0 \<le> cap" and pw: "0 \<le> pw"
    and eta: "0 < round_trip_efficiency kw"
    and j: "j < length ledger"
  shows "0 \<le> soc_before (cap * 1000 * (5 / 10)) ledger j \<and>
         soc_before (cap * 1000 * (5 / 10)) ledger j \<le> cap * 1000"
  using j
proof (induction j)
  case 0
  then show ?case using cap by (simp add: soc_before_def)
next
  case (Suc j)
  then have jl: "j < length ledger" by simp
  note step = run_simulation_rows(3) [OF run jl]
  from Suc.IH [OF jl] pw
  have "0 \<le> battery_soc_kwh (ledger ! j) \<and> battery_soc_kwh (ledger ! j) \<le> cap * 1000"
    using simulate_hour_bounds(1,2) [OF step _ _ _ eta] by simp
  then show ?case by (simp add: soc_before_def)
qed

lemma run_simulation_total:
  assumes "ml \<noteq> []" and "length ml \<le> length sp" and "length ml \<le> length wp"
    and "cap \<noteq> 0" and "round_trip_efficiency kw \<noteq> 0"
  shows "\<exists>ledger. run_simulation ml sp wp cap pw kw = Inr ledger"
proof -
  have "cap * 1000 \<noteq> 0" using assms(4) by simp
  from hourly_loop_total [of 0 "length ml" ml sp wp "cap * 1000", OF _ _ _ this assms(5),
      of "pw * 1000" "grid_purchase_price kw"
         "grid_sell_price kw" "cap * 1000 * (5 / 10)" "[]"] assms(1,2,3)
  show ?thesis unfolding run_simulation_def Let_def by auto
qed

section \<open>Evaluation of concrete runs\<close>

lemmas run_eval = run_simulation_def grid_purchase_price_def grid_sell_price_def
  round_trip_efficiency_def kwargs_get_def simulate_hour_def iloc_def truediv_def min3_def Let_def

text \<open>A two-hour run with the default prices and efficiency, a 1 MWh battery limited to
  10 kW: a deficit hour followed by a surplus hour.\<close>

lemma two_hour_run:
  "run_simulation [100, 20] [30, 50] [0, 10] 1 (1 / 100) Map.empty =
     Inr [\<lparr> mine_load_kw = 100, solar_power_kw = 30, wind_power_kw = 0,
            renewable_total_kw = 30, net_load_kw = 70, battery_charge_kw = 0,
            battery_discharge_kw = 10, battery_soc_kwh = 490,
            battery_soc_percent = 49, grid_buy_kw = 60, grid_sell_kw = 0,
            grid_cost_usd = 9 / 1000, grid_revenue_usd = 0,
            net_grid_cost_usd = 9 / 1000 \<rparr>,
          \<lparr> mine_load_kw = 20, solar_power_kw = 50, wind_power_kw = 10,
            renewable_total_kw = 60, net_load_kw = - 40,
            battery_charge_kw = 10, battery_discharge_kw = 0,
            battery_soc_kwh = 997 / 2, battery_soc_percent = 997 / 20,
            grid_buy_kw = 0, grid_sell_kw = 30, grid_cost_usd = 0,
            grid_revenue_usd = 3 / 2000, net_grid_cost_usd = - (3 / 2000) \<rparr>]"
  by (simp add: run_eval)

section \<open>Dispatch engine: the claims\<close>

text \<open>
  C1. In every successful run the ledger has one row per demand value, and row \<open>i\<close> follows
  the fixed-priority policy from the battery state \<open>prev\<close> left by the preceding step (half
  the capacity for the first step). With net load \<open>L = D[i] - R_i > 0\<close>: discharge is
  \<open>min(P_max, prev, L)\<close>, the state drops by the discharge, import is \<open>L\<close> minus the discharge,
  charge and export are 0. Otherwise: charge is \<open>min(P_max, (C - prev)/\<eta>, -L)\<close>, the state
  rises by charge times \<open>\<eta>\<close>, export is \<open>-L\<close> minus the charge, discharge and import are 0.
  Capacity and power are the arguments converted to kWh and kW.
\<close>

theorem C1_fixed_priority_policy:
  assumes "run_simulation ml sp wp cap pw kw = Inr ledger" and "i < length ledger"
  shows "length ledger = length ml \<and>
    (let r = ledger ! i;
         C = cap * 1000;
         P = pw * 1000;
         eta = round_trip_efficiency kw;
         prev = soc_before (C * (5 / 10)) ledger i;
         L = ml ! i - (sp ! i + wp ! i)
     in net_load_kw r = L \<and>
        (if L > 0 then
           battery_discharge_kw r = min P (min prev L) \<and>
           battery_soc_kwh r = prev - battery_discharge_kw r \<and>
           grid_buy_kw r = L - battery_discharge_kw r \<and>
           battery_charge_kw r = 0 \<and> grid_sell_kw r = 0
         else
           battery_charge_kw r = min P (min ((C - prev) / eta) (- L)) \<and>
           battery_soc_kwh r = prev + battery_charge_kw r * eta \<and>
           grid_sell_kw r = - L - battery_charge_kw r \<and>
           battery_discharge_kw r = 0 \<and> grid_buy_kw r = 0))"
proof -
  note step = run_simulation_rows(3) [OF assms]
  have L: "net_load_kw (ledger ! i) = ml ! i - (sp ! i + wp ! i)"
    using simulate_hour_fields [OF step] by simp
  show ?thesis
  proof (cases "0 < net_load_kw (ledger ! i)")
    case True
    from simulate_hour_deficit [OF step True] True L run_simulation_rows(2) [OF assms(1)]
    show ?thesis by (simp add: Let_def min3_def)
  next
    case False
    from simulate_hour_surplus [OF step False] False L run_simulation_rows(2) [OF assms(1)]
    show ?thesis by (simp add: Let_def min3_def)
  qed
qed

theorem C1_fixed_priority_policy_witness:
  "(let ledger = projr (run_simulation [100, 20] [30, 50] [0, 10] 1 (1 / 100) Map.empty);
        r0 = ledger ! 0; r1 = ledger ! 1
    in run_simulation [100, 20] [30, 50] [0, 10] 1 (1 / 100) Map.empty = Inr ledger \<and>
       length ledger = 2 \<and>
       net_load_kw r0 = 70 \<and>
       battery_discharge_kw r0 = min 10 (min 500 70) \<and>
       battery_soc_kwh r0 = 500 - battery_discharge_kw r0 \<and>
       grid_buy_kw r0 = 70 - battery_discharge_kw r0 \<and>
       battery_charge_kw r0 = 0 \<and> grid_sell_kw r0 = 0 \<and>
       net_load_kw r1 = - 40 \<and>
       battery_charge_kw r1 = min 10 (min ((1000 - battery_soc_kwh r0) / (85 / 100)) 40) \<and>
       battery_soc_kwh r1 = battery_soc_kwh r0 + battery_charge_kw r1 * (85 / 100) \<and>
       grid_sell_kw r1 = 40 - battery_charge_kw r1 \<and>
       battery_discharge_kw r1 = 0 \<and> grid_buy_kw r1 = 0)"
  using C1_fixed_priority_policy [OF two_hour_run, of 0]
    C1_fixed_priority_policy [OF two_hour_run, of 1]
  unfolding two_hour_run
  by (simp add: Let_def soc_before_def round_trip_efficiency_def kwargs_get_def)

text \<open>
  C3. In every successful run, every step balances exactly: demand plus charge equals
  renewable generation plus discharge plus grid import minus grid export, the row's demand
  and renewable total being the inputs of that step.
\<close>

theorem C3_energy_conservation:
  assumes "run_simulation ml sp wp cap pw kw = Inr ledger" and "i < length ledger"
  shows "mine_load_kw (ledger ! i) = ml ! i \<and>
         renewable_total_kw (ledger ! i) = sp ! i + wp ! i \<and>
         ml ! i + battery_charge_kw (ledger ! i) =
           (sp ! i + wp ! i) + battery_discharge_kw (ledger ! i)
             + grid_buy_kw (ledger ! i) - grid_sell_kw (ledger ! i)"
proof -
  note step = run_simulation_rows(3) [OF assms]
  note f = simulate_hour_fields [OF step]
  have L: "net_load_kw (ledger ! i) = ml ! i - (sp ! i + wp ! i)"
    and D: "mine_load_kw (ledger ! i) = ml ! i"
    and R: "renewable_total_kw (ledger ! i) = sp ! i + wp ! i"
    using f by simp_all
  show ?thesis
  proof (cases "0 < net_load_kw (ledger ! i)")
    case True
    from simulate_hour_deficit(3,4,5) [OF step True] L D R show ?thesis by simp
  next
    case False
    from simulate_hour_surplus(4,5,6) [OF step False] L D R show ?thesis by simp
  qed
qed

theorem C3_energy_conservation_witness:
  "(let ledger = projr (run_simulation [100, 20] [30, 50] [0, 10] 1 (1 / 100) Map.empty);
        r0 = ledger ! 0; r1 = ledger ! 1
    in run_simulation [100, 20] [30, 50] [0, 10] 1 (1 / 100) Map.empty = Inr ledger \<and>
       1 < length ledger \<and>
       100 + battery_charge_kw r0 =
         (30 + 0) + battery_discharge_kw r0 + grid_buy_kw r0 - grid_sell_kw r0 \<and>
       20 + battery_charge_kw r1 =
         (50 + 10) + battery_discharge_kw r1 + grid_buy_kw r1 - grid_sell_kw r1)"
  using C3_energy_conservation [OF two_hour_run, of 0]
    C3_energy_conservation [OF two_hour_run, of 1]
  unfolding two_hour_run by (simp add: Let_def)

text \<open>
  C4. The claim puts the cost of a step at import times purchase price, 10 for an import
  of 100 at 0.1 per kWh. The engine divides the product by 1000: the same step costs 1/100.
\<close>

theorem C4_cost_divided_by_1000:
  "run_simulation [100] [0] [0] 1 0 [''grid_purchase_price'' \<mapsto> 1 / 10] =
     Inr [\<lparr> mine_load_kw = 100, solar_power_kw = 0, wind_power_kw = 0,
            renewable_total_kw = 0, net_load_kw = 100, battery_charge_kw = 0,
            battery_discharge_kw = 0, battery_soc_kwh = 500,
            battery_soc_percent = 50, grid_buy_kw = 100, grid_sell_kw = 0,
            grid_cost_usd = 1 / 100, grid_revenue_usd = 0,
            net_grid_cost_usd = 1 / 100 \<rparr>]"
  by (simp add: run_eval)

text \<open>
  C6. Scenario A: demand 100, no generation, capacity 0, power 0, efficiency 1, purchase
  price 0.1. The claim expects a ledger row; the engine divides the state of charge by the
  capacity to report a percentage, the division raises, and the run returns no ledger.
\<close>

theorem C6_scenario_A_fails:
  "run_simulation [100] [0] [0] 0 0
     [''grid_purchase_price'' \<mapsto> 1 / 10, ''round_trip_efficiency'' \<mapsto> 1]
   = Inl ZeroDivisionError"
  by (simp add: run_eval)

text \<open>
  C7, as stated: scenario B (demand 50, generation 80, capacity 100 kWh, power 100 kW,
  efficiency 0.9) configured to start empty ends at a state of charge of 27. Passing
  \<open>initial_soc = 0\<close> changes nothing: the run starts at 50 and ends at 77.
\<close>

theorem C7_scenario_B_counterexample:
  "run_simulation [50] [80] [0] (1 / 10) (1 / 10)
     [''initial_soc'' \<mapsto> 0, ''round_trip_efficiency'' \<mapsto> 9 / 10] =
     Inr [\<lparr> mine_load_kw = 50, solar_power_kw = 80, wind_power_kw = 0,
            renewable_total_kw = 80, net_load_kw = - 30,
            battery_charge_kw = 30, battery_discharge_kw = 0,
            battery_soc_kwh = 77, battery_soc_percent = 77, grid_buy_kw = 0,
            grid_sell_kw = 0, grid_cost_usd = 0, grid_revenue_usd = 0,
            net_grid_cost_usd = 0 \<rparr>]
   \<and> (77::real) \<noteq> 27"
  by (simp add: run_eval)

text \<open>
  C7, amended. Whatever the arguments and keywords, a successful run starts at half the
  capacity: undoing the first step's discharge and credited charge on its recorded state of
  charge gives \<open>capacity / 2\<close> (in kWh).
\<close>

theorem C7_initial_soc_half_capacity:
  assumes "run_simulation ml sp wp cap pw kw = Inr ledger"
  shows "battery_soc_kwh (ledger ! 0) + battery_discharge_kw (ledger ! 0)
           - battery_charge_kw (ledger ! 0) * round_trip_efficiency kw
         = cap * 1000 / 2"
proof -
  have "0 < length ledger" using run_simulation_rows(1) [OF assms] by simp
  note step = run_simulation_rows(3) [OF assms this]
  show ?thesis
  proof (cases "0 < net_load_kw (ledger ! 0)")
    case True
    from simulate_hour_deficit(2,4) [OF step True] show ?thesis
      by (simp add: soc_before_def)
  next
    case False
    from simulate_hour_surplus(3,5) [OF step False] show ?thesis
      by (simp add: soc_before_def)
  qed
qed

theorem C7_initial_soc_half_capacity_witness:
  "(let kw = [''initial_soc'' \<mapsto> 0, ''round_trip_efficiency'' \<mapsto> 9 / 10];
        ledger = projr (run_simulation [50] [80] [0] (1 / 10) (1 / 10) kw)
    in run_simulation [50] [80] [0] (1 / 10) (1 / 10) kw = Inr ledger \<and>
       battery_soc_kwh (ledger ! 0) + battery_discharge_kw (ledger ! 0)
           - battery_charge_kw (ledger ! 0) * (9 / 10) = 50)"
proof -
  have run: "run_simulation [50] [80] [0] (1 / 10) (1 / 10)
     [''initial_soc'' \<mapsto> 0, ''round_trip_efficiency'' \<mapsto> 9 / 10] =
     Inr [\<lparr> mine_load_kw = 50, solar_power_kw = 80, wind_power_kw = 0,
            renewable_total_kw = 80, net_load_kw = - 30,
            battery_charge_kw = 30, battery_discharge_kw = 0,
            battery_soc_kwh = 77, battery_soc_percent = 77, grid_buy_kw = 0,
            grid_sell_kw = 0, grid_cost_usd = 0, grid_revenue_usd = 0,
            net_grid_cost_usd = 0 \<rparr>]"
    by (simp add: run_eval)
  from C7_initial_soc_half_capacity [OF run]
  show ?thesis
    by (simp add: Let_def run round_trip_efficiency_def kwargs_get_def)
qed

text \<open>
  C5, as stated: a negative demand value makes the run fail without a ledger. The engine
  checks nothing: a demand of -5 is treated as a surplus of 5 and charged into the battery.
\<close>

theorem C5_negative_demand_counterexample:
  "run_simulation [- 5] [0] [0] 1 1 Map.empty =
     Inr [\<lparr> mine_load_kw = - 5, solar_power_kw = 0, wind_power_kw = 0,
            renewable_total_kw = 0, net_load_kw = - 5, battery_charge_kw = 5,
            battery_discharge_kw = 0, battery_soc_kwh = 2017 / 4,
            battery_soc_percent = 2017 / 40, grid_buy_kw = 0, grid_sell_kw = 0,
            grid_cost_usd = 0, grid_revenue_usd = 0, net_grid_cost_usd = 0 \<rparr>]"
  by (simp add: run_eval)

text \<open>
  C5, amended. A run returns a whole ledger or none. It returns none when the demand series
  is empty (KeyError from the empty frame) or when the solar or wind series is shorter than
  the demand series (IndexError inside the loop, the rows built so far being dropped). With
  a capacity and an efficiency other than 0 it returns one row per demand value whenever
  the demand is not empty and both generation series are at least as long, whatever the
  signs of the values and however long the generation series are.
\<close>

theorem C5_whole_ledger_or_none:
  "(ml = [] \<longrightarrow> run_simulation ml sp wp cap pw kw = Inl KeyError) \<and>
   (length sp < length ml \<or> length wp < length ml \<longrightarrow>
      (\<exists>e. run_simulation ml sp wp cap pw kw = Inl e)) \<and>
   (ml \<noteq> [] \<and> length ml \<le> length sp \<and> length ml \<le> length wp \<and>
    cap \<noteq> 0 \<and> round_trip_efficiency kw \<noteq> 0 \<longrightarrow>
      (\<exists>ledger. run_simulation ml sp wp cap pw kw = Inr ledger \<and> length ledger = length ml))"
proof (intro conjI impI)
  assume "ml = []"
  then show "run_simulation ml sp wp cap pw kw = Inl KeyError"
    by (simp add: run_simulation_def)
next
  assume short: "length sp < length ml \<or> length wp < length ml"
  show "\<exists>e. run_simulation ml sp wp cap pw kw = Inl e"
  proof (cases "run_simulation ml sp wp cap pw kw")
    case (Inl e)
    then show ?thesis by simp
  next
    case (Inr ledger)
    note len = run_simulation_rows(2) [OF Inr]
    from short obtain j where j: "j < length ml" "\<not> (j < length sp \<and> j < length wp)"
      by (metis less_irrefl not_less_iff_gr_or_eq)
    then have "j < length ledger" using len by simp
    from simulate_hour_fields [OF run_simulation_rows(3) [OF Inr this]] j
    show ?thesis by simp
  qed
next
  assume ok: "ml \<noteq> [] \<and> length ml \<le> length sp \<and> length ml \<le> length wp \<and>
    cap \<noteq> 0 \<and> round_trip_efficiency kw \<noteq> 0"
  then obtain ledger where run: "run_simulation ml sp wp cap pw kw = Inr ledger"
    using run_simulation_total by blast
  with run_simulation_rows(2) [OF run]
  show "\<exists>ledger. run_simulation ml sp wp cap pw kw = Inr ledger \<and> length ledger = length ml"
    by simp
qed

theorem C5_whole_ledger_or_none_witness:
  "run_simulation [] [] [] 1 1 Map.empty = Inl KeyError \<and>
   length [0::real] < length [100, 20 :: real] \<and>
   run_simulation [100, 20] [30, 50] [0] 1 (1 / 100) Map.empty = Inl IndexError \<and>
   [- 5 :: real] \<noteq> [] \<and> length [- 5 :: real] \<le> length [0, 7 :: real] \<and>
   length [- 5 :: real] \<le> length [0 :: real] \<and> (1::real) \<noteq> 0 \<and>
   round_trip_efficiency Map.empty \<noteq> 0 \<and>
   length (projr (run_simulation [- 5] [0, 7] [0] 1 1 Map.empty)) = length [- 5 :: real]"
proof -
  have eta: "round_trip_efficiency Map.empty \<noteq> 0"
    by (simp add: round_trip_efficiency_def kwargs_get_def)
  have short: "run_simulation [100, 20] [30, 50] [0] 1 (1 / 100) Map.empty = Inl IndexError"
    by (simp add: run_eval)
  from C5_whole_ledger_or_none [of "[]" "[]" "[]" 1 1 Map.empty]
    C5_whole_ledger_or_none [of "[100, 20]" "[30, 50]" "[0]" 1 "1 / 100" Map.empty]
    C5_whole_ledger_or_none [of "[- 5]" "[0, 7]" "[0]" 1 1 Map.empty] eta short
  show ?thesis by auto
qed

section \<open>Flow attributor: one row\<close>

lemma share_sum:
  fixes x s w :: real
  assumes "s + w \<noteq> 0"
  shows "x * (s / (s + w)) + x * (w / (s + w)) = x"
proof -
  have "x * (s / (s + w)) + x * (w / (s + w)) = x * ((s + w) / (s + w))"
    unfolding add_divide_distrib distrib_left ..
  also have "\<dots> = x" using assms by simp
  finally show ?thesis .
qed

text \<open>Without renewable generation only the grid and battery totals move.\<close>

lemma attribute_hour_skip:
  assumes "\<not> 0 < solar_power_kw h + wind_power_kw h"
  shows "attribute_hour acc h =
     Inr (acc\<lparr> grid_to_load := grid_to_load acc + grid_buy_kw h,
               battery_to_load := battery_to_load acc + battery_discharge_kw h \<rparr>)"
  using assms unfolding attribute_hour_def by (simp add: Let_def)

text \<open>With renewable generation: the amounts apportioned to load, storage and export.\<close>

lemma attribute_hour_apportion:
  assumes R: "0 < solar_power_kw h + wind_power_kw h"
  defines "R \<equiv> solar_power_kw h + wind_power_kw h"
  defines "to_load \<equiv> min R (mine_load_kw h)"
  defines "c \<equiv> (if 0 < R - to_load \<and> 0 < battery_charge_kw h
                 then min (battery_charge_kw h) (R - to_load) else 0)"
  defines "g \<equiv> (if 0 < R - to_load - c \<and> 0 < grid_sell_kw h
                 then min (grid_sell_kw h) (R - to_load - c) else 0)"
  shows "attribute_hour acc h =
     Inr (acc\<lparr> solar_to_load := solar_to_load acc + to_load * (solar_power_kw h / R),
               wind_to_load := wind_to_load acc + to_load * (wind_power_kw h / R),
               solar_to_battery := solar_to_battery acc + c * (solar_power_kw h / R),
               wind_to_battery := wind_to_battery acc + c * (wind_power_kw h / R),
               solar_to_grid := solar_to_grid acc + g * (solar_power_kw h / R),
               wind_to_grid := wind_to_grid acc + g * (wind_power_kw h / R),
               grid_to_load := grid_to_load acc + grid_buy_kw h,
               battery_to_load := battery_to_load acc + battery_discharge_kw h \<rparr>)"
proof -
  have ne: "solar_power_kw h + wind_power_kw h \<noteq> 0" using R by simp
  show ?thesis
    unfolding attribute_hour_def truediv_def R_def to_load_def c_def g_def
    using R ne by (simp add: Let_def)
qed


lemma share_sum_acc:
  fixes x s w a b :: real
  assumes "s + w \<noteq> 0"
  shows "(a + x * (s / (s + w))) + (b + x * (w / (s + w))) = a + b + x"
  using share_sum [OF assms, of x] by linarith

text \<open>On a balanced row the step succeeds and adds the row's charge, export and demand to
  the totals of the three destinations.\<close>

lemma attribute_hour_conserves:
  assumes "balanced_row h"
  shows "\<exists>acc'. attribute_hour acc h = Inr acc' \<and>
     solar_to_battery acc' + wind_to_battery acc'
       = solar_to_battery acc + wind_to_battery acc + battery_charge_kw h \<and>
     solar_to_grid acc' + wind_to_grid acc'
       = solar_to_grid acc + wind_to_grid acc + grid_sell_kw h \<and>
     solar_to_load acc' + wind_to_load acc' + grid_to_load acc' + battery_to_load acc'
       = solar_to_load acc + wind_to_load acc + grid_to_load acc + battery_to_load acc
         + mine_load_kw h"
proof (cases "0 < solar_power_kw h + wind_power_kw h")
  case False
  with assms have "battery_charge_kw h = 0 \<and> grid_sell_kw h = 0 \<and>
      grid_buy_kw h + battery_discharge_kw h = mine_load_kw h"
    unfolding balanced_row_def by (auto split: if_splits)
  then show ?thesis unfolding attribute_hour_skip [OF False] by simp
next
  case True
  define R where "R = solar_power_kw h + wind_power_kw h"
  define to_load where "to_load = min R (mine_load_kw h)"
  define c where "c = (if 0 < R - to_load \<and> 0 < battery_charge_kw h
                 then min (battery_charge_kw h) (R - to_load) else 0)"
  define g where "g = (if 0 < R - to_load - c \<and> 0 < grid_sell_kw h
                 then min (grid_sell_kw h) (R - to_load - c) else 0)"
  have ne: "solar_power_kw h + wind_power_kw h \<noteq> 0" using True by simp
  have bal: "0 \<le> battery_charge_kw h" "0 \<le> grid_sell_kw h"
    "if R < mine_load_kw h then
         battery_charge_kw h = 0 \<and> grid_sell_kw h = 0 \<and>
         grid_buy_kw h + battery_discharge_kw h = mine_load_kw h - R
       else
         grid_buy_kw h = 0 \<and> battery_discharge_kw h = 0 \<and>
         battery_charge_kw h + grid_sell_kw h = R - mine_load_kw h"
    using assms unfolding balanced_row_def R_def by simp_all
  have tl: "to_load + grid_buy_kw h + battery_discharge_kw h = mine_load_kw h"
    using bal(3) unfolding to_load_def by (auto split: if_splits)
  have rest: "R - to_load = battery_charge_kw h + grid_sell_kw h"
    using bal(3) unfolding to_load_def by (auto split: if_splits)
  have c: "c = battery_charge_kw h"
    unfolding c_def rest using bal(1,2) by auto
  have g: "g = grid_sell_kw h"
    unfolding g_def rest c using bal(2) by auto
  have step: "attribute_hour acc h =
     Inr (acc\<lparr> solar_to_load := solar_to_load acc + to_load * (solar_power_kw h / R),
               wind_to_load := wind_to_load acc + to_load * (wind_power_kw h / R),
               solar_to_battery := solar_to_battery acc + c * (solar_power_kw h / R),
               wind_to_battery := wind_to_battery acc + c * (wind_power_kw h / R),
               solar_to_grid := solar_to_grid acc + g * (solar_power_kw h / R),
               wind_to_grid := wind_to_grid acc + g * (wind_power_kw h / R),
               grid_to_load := grid_to_load acc + grid_buy_kw h,
               battery_to_load := battery_to_load acc + battery_discharge_kw h \<rparr>)"
    unfolding R_def to_load_def c_def g_def by (rule attribute_hour_apportion [OF True])
  have b: "(solar_to_battery acc + c * (solar_power_kw h / R))
             + (wind_to_battery acc + c * (wind_power_kw h / R))
           = solar_to_battery acc + wind_to_battery acc + battery_charge_kw h"
    unfolding R_def c [symmetric] by (rule share_sum_acc [OF ne])
  have e: "(solar_to_grid acc + g * (solar_power_kw h / R))
             + (wind_to_grid acc + g * (wind_power_kw h / R))
           = solar_to_grid acc + wind_to_grid acc + grid_sell_kw h"
    unfolding R_def g [symmetric] by (rule share_sum_acc [OF ne])
  have l: "(solar_to_load acc + to_load * (solar_power_kw h / R))
             + (wind_to_load acc + to_load * (wind_power_kw h / R))
           = solar_to_load acc + wind_to_load acc + to_load"
    unfolding R_def by (rule share_sum_acc [OF ne])
  show ?thesis unfolding step using b e l tl by simp
qed

section \<open>Flow attributor: the whole ledger\<close>

lemma attribution_loop_conserves:
  assumes "\<forall>h\<in>set rows. balanced_row h"
  shows "\<exists>acc'. attribution_loop acc rows = Inr acc' \<and>
     solar_to_battery acc' + wind_to_battery acc'
       = solar_to_battery acc + wind_to_battery acc + sum_list (map battery_charge_kw rows) \<and>
     solar_to_grid acc' + wind_to_grid acc'
       = solar_to_grid acc + wind_to_grid acc + sum_list (map grid_sell_kw rows) \<and>
     solar_to_load acc' + wind_to_load acc' + grid_to_load acc' + battery_to_load acc'
       = solar_to_load acc + wind_to_load acc + grid_to_load acc + battery_to_load acc
         + sum_list (map mine_load_kw rows)"
  using assms
proof (induction rows arbitrary: acc)
  case Nil
  then show ?case by simp
next
  case (Cons h rows)
  from Cons.prems have h: "balanced_row h" and rest: "\<forall>h\<in>set rows. balanced_row h"
    by simp_all
  from attribute_hour_conserves [OF h, of acc] obtain acc1 where
    s1: "attribute_hour acc h = Inr acc1"
    and b1: "solar_to_battery acc1 + wind_to_battery acc1
       = solar_to_battery acc + wind_to_battery acc + battery_charge_kw h"
    and g1: "solar_to_grid acc1 + wind_to_grid acc1
       = solar_to_grid acc + wind_to_grid acc + grid_sell_kw h"
    and l1: "solar_to_load acc1 + wind_to_load acc1 + grid_to_load acc1 + battery_to_load acc1
       = solar_to_load acc + wind_to_load acc + grid_to_load acc + battery_to_load acc
         + mine_load_kw h"
    by blast
  from Cons.IH [OF rest, of acc1] obtain acc' where
    s2: "attribution_loop acc1 rows = Inr acc'"
    and b2: "solar_to_battery acc' + wind_to_battery acc'
       = solar_to_battery acc1 + wind_to_battery acc1 + sum_list (map battery_charge_kw rows)"
    and g2: "solar_to_grid acc' + wind_to_grid acc'
       = solar_to_grid acc1 + wind_to_grid acc1 + sum_list (map grid_sell_kw rows)"
    and l2: "solar_to_load acc' + wind_to_load acc' + grid_to_load acc' + battery_to_load acc'
       = solar_to_load acc1 + wind_to_load acc1 + grid_to_load acc1 + battery_to_load acc1
         + sum_list (map mine_load_kw rows)"
    by blast
  have "attribution_loop acc (h # rows) = Inr acc'" using s1 s2 by simp
  moreover have "solar_to_battery acc' + wind_to_battery acc'
       = solar_to_battery acc + wind_to_battery acc + sum_list (map battery_charge_kw (h # rows))"
    using b1 b2 by simp
  moreover have "solar_to_grid acc' + wind_to_grid acc'
       = solar_to_grid acc + wind_to_grid acc + sum_list (map grid_sell_kw (h # rows))"
    using g1 g2 by simp
  moreover have "solar_to_load acc' + wind_to_load acc' + grid_to_load acc' + battery_to_load acc'
       = solar_to_load acc + wind_to_load acc + grid_to_load acc + battery_to_load acc
         + sum_list (map mine_load_kw (h # rows))"
    using l1 l2 by simp
  ultimately show ?case by blast
qed

text \<open>The rows of a run on nonnegative series with a valid battery are balanced.\<close>

lemma run_simulation_balanced:
  assumes run: "run_simulation ml sp wp cap pw kw = Inr ledger"
    and ml: "\<forall>x\<in>set ml. 0 \<le> x" and sp: "\<forall>x\<in>set sp. 0 \<le> x" and wp: "\<forall>x\<in>set wp. 0 \<le> x"
    and cap: "0 \<le> cap" and pw: "0 \<le> pw" and eta: "0 < round_trip_efficiency kw"
  shows "\<forall>h\<in>set ledger. balanced_row h"
proof
  fix h assume "h \<in> set ledger"
  then obtain i where i: "i < length ledger" and h: "h = ledger ! i"
    by (auto simp: in_set_conv_nth)
  note step = run_simulation_rows(3) [OF run i]
  note f = simulate_hour_fields [OF step]
  have idx: "i < length ml" "i < length sp" "i < length wp" using f by simp_all
  have D: "mine_load_kw h = ml ! i" and S: "solar_power_kw h = sp ! i"
    and W: "wind_power_kw h = wp ! i"
    and L: "net_load_kw h = mine_load_kw h - (solar_power_kw h + wind_power_kw h)"
    using f h by simp_all
  have nn: "0 \<le> mine_load_kw h" "0 \<le> solar_power_kw h" "0 \<le> wind_power_kw h"
    using ml sp wp idx D S W by simp_all
  from run_simulation_soc_range [OF run cap pw eta i]
  have prev: "0 \<le> soc_before (cap * 1000 * (5 / 10)) ledger i"
    "soc_before (cap * 1000 * (5 / 10)) ledger i \<le> cap * 1000"
    by simp_all
  have P: "0 \<le> pw * 1000" using pw by simp
  have flows: "0 \<le> battery_charge_kw h" "0 \<le> grid_sell_kw h"
    using simulate_hour_bounds(3,8) [OF step prev P eta] h by simp_all
  show "balanced_row h"
  proof (cases "0 < net_load_kw h")
    case True
    then have "0 < net_load_kw (ledger ! i)" using h by simp
    from simulate_hour_deficit(3,4,5) [OF step this] True L nn flows
    show ?thesis unfolding balanced_row_def h [symmetric] by simp
  next
    case False
    then have "\<not> 0 < net_load_kw (ledger ! i)" using h by simp
    from simulate_hour_surplus(4,5,6) [OF step this] False L nn flows
    show ?thesis unfolding balanced_row_def h [symmetric] by simp
  qed
qed


section \<open>Flow attributor: the claims\<close>

text \<open>
  C8. On a ledger row with renewable generation \<open>R > 0\<close> the attributor succeeds and adds, to
  each source's totals, the source's share \<open>G_k / R\<close> of three amounts: \<open>min(R, D)\<close> to load;
  of the remainder \<open>R - min(R, D)\<close>, the part \<open>c\<close> going to storage, at most the row's charge;
  and of what the remainder leaves after \<open>c\<close>, the part \<open>g\<close> going to export, at most the row's
  export. Both parts are nonnegative and together never exceed the remainder. On a row
  with \<open>R \<le> 0\<close> the six renewable totals are left alone and nothing is divided. In both
  cases import and discharge are added whole to the grid and battery totals.
\<close>

theorem C8_step_apportionment:
  "(let Gs = solar_power_kw h; Gw = wind_power_kw h;
        R = Gs + Gw;
        to_load = min R (mine_load_kw h);
        rest = R - to_load;
        c = (if 0 < rest \<and> 0 < battery_charge_kw h then min (battery_charge_kw h) rest else 0);
        g = (if 0 < rest - c \<and> 0 < grid_sell_kw h then min (grid_sell_kw h) (rest - c) else 0)
    in if 0 < R then
         attribute_hour acc h =
           Inr (acc\<lparr> solar_to_load := solar_to_load acc + to_load * (Gs / R),
                     wind_to_load := wind_to_load acc + to_load * (Gw / R),
                     solar_to_battery := solar_to_battery acc + c * (Gs / R),
                     wind_to_battery := wind_to_battery acc + c * (Gw / R),
                     solar_to_grid := solar_to_grid acc + g * (Gs / R),
                     wind_to_grid := wind_to_grid acc + g * (Gw / R),
                     grid_to_load := grid_to_load acc + grid_buy_kw h,
                     battery_to_load := battery_to_load acc + battery_discharge_kw h \<rparr>) \<and>
         0 \<le> c \<and> c \<le> max 0 (battery_charge_kw h) \<and>
         0 \<le> g \<and> g \<le> max 0 (grid_sell_kw h) \<and>
         c + g \<le> rest
       else
         attribute_hour acc h =
           Inr (acc\<lparr> grid_to_load := grid_to_load acc + grid_buy_kw h,
                     battery_to_load := battery_to_load acc + battery_discharge_kw h \<rparr>))"
proof (cases "0 < solar_power_kw h + wind_power_kw h")
  case False
  from attribute_hour_skip [OF False, of acc] False show ?thesis
    by (simp add: Let_def)
next
  case True
  define rest where
    "rest = solar_power_kw h + wind_power_kw h
              - min (solar_power_kw h + wind_power_kw h) (mine_load_kw h)"
  define c where
    "c = (if 0 < rest \<and> 0 < battery_charge_kw h then min (battery_charge_kw h) rest else 0)"
  define g where
    "g = (if 0 < rest - c \<and> 0 < grid_sell_kw h then min (grid_sell_kw h) (rest - c) else 0)"
  have rest0: "0 \<le> rest" unfolding rest_def by simp
  have c: "0 \<le> c" "c \<le> max 0 (battery_charge_kw h)" "c \<le> rest"
    unfolding c_def using rest0 by auto
  have g: "0 \<le> g" "g \<le> max 0 (grid_sell_kw h)" "g \<le> rest - c"
    unfolding g_def using c(3) by auto
  have bounds: "0 \<le> c \<and> c \<le> max 0 (battery_charge_kw h) \<and>
         0 \<le> g \<and> g \<le> max 0 (grid_sell_kw h) \<and> c + g \<le> rest"
    using c g by simp
  from attribute_hour_apportion [OF True, of acc] True bounds
  show ?thesis unfolding g_def c_def rest_def by (simp add: Let_def)
qed

theorem C8_step_apportionment_witness:
  "(let h = \<lparr> mine_load_kw = 70, solar_power_kw = 40, wind_power_kw = 60,
              renewable_total_kw = 100, net_load_kw = - 30,
              battery_charge_kw = 10, battery_discharge_kw = 0,
              battery_soc_kwh = 997 / 2, battery_soc_percent = 997 / 20,
              grid_buy_kw = 0, grid_sell_kw = 20, grid_cost_usd = 0,
              grid_revenue_usd = 1 / 1000, net_grid_cost_usd = - (1 / 1000) \<rparr>;
        dark = \<lparr> mine_load_kw = 100, solar_power_kw = 0, wind_power_kw = 0,
              renewable_total_kw = 0, net_load_kw = 100,
              battery_charge_kw = 0, battery_discharge_kw = 10,
              battery_soc_kwh = 490, battery_soc_percent = 49,
              grid_buy_kw = 90, grid_sell_kw = 0, grid_cost_usd = 27 / 2000,
              grid_revenue_usd = 0, net_grid_cost_usd = 27 / 2000 \<rparr>
    in 0 < solar_power_kw h + wind_power_kw h \<and>
       attribute_hour zero_totals h =
         Inr \<lparr> solar_to_load = 28, solar_to_battery = 4, solar_to_grid = 8,
               wind_to_load = 42, wind_to_battery = 6, wind_to_grid = 12,
               grid_to_load = 0, battery_to_load = 0 \<rparr> \<and>
       \<not> 0 < solar_power_kw dark + wind_power_kw dark \<and>
       attribute_hour zero_totals dark =
         Inr \<lparr> solar_to_load = 0, solar_to_battery = 0, solar_to_grid = 0,
               wind_to_load = 0, wind_to_battery = 0, wind_to_grid = 0,
               grid_to_load = 90, battery_to_load = 10 \<rparr>)"
  using C8_step_apportionment [of
      "\<lparr> mine_load_kw = 70, solar_power_kw = 40, wind_power_kw = 60,
              renewable_total_kw = 100, net_load_kw = - 30,
              battery_charge_kw = 10, battery_discharge_kw = 0,
              battery_soc_kwh = 997 / 2, battery_soc_percent = 997 / 20,
              grid_buy_kw = 0, grid_sell_kw = 20, grid_cost_usd = 0,
              grid_revenue_usd = 1 / 1000, net_grid_cost_usd = - (1 / 1000) \<rparr>" zero_totals]
    C8_step_apportionment [of
      "\<lparr> mine_load_kw = 100, solar_power_kw = 0, wind_power_kw = 0,
              renewable_total_kw = 0, net_load_kw = 100,
              battery_charge_kw = 0, battery_discharge_kw = 10,
              battery_soc_kwh = 490, battery_soc_percent = 49,
              grid_buy_kw = 90, grid_sell_kw = 0, grid_cost_usd = 27 / 2000,
              grid_revenue_usd = 0, net_grid_cost_usd = 27 / 2000 \<rparr>" zero_totals]
  by (simp add: Let_def zero_totals_def)

text \<open>
  C9. For the ledger of every successful run on nonnegative demand and generation series
  with capacity \<open>\<ge> 0\<close>, maximum power \<open>\<ge> 0\<close> and efficiency \<open>> 0\<close>, the attributor
  succeeds and its totals add up to the ledger's own: solar plus wind into storage is the
  total charge, solar plus wind into the grid is the total export, and solar, wind, grid
  and battery into load is the total demand (all in GWh).
\<close>

theorem C9_attribution_conservation:
  assumes "run_simulation ml sp wp cap pw kw = Inr ledger"
    and "\<forall>x\<in>set ml. 0 \<le> x" and "\<forall>x\<in>set sp. 0 \<le> x" and "\<forall>x\<in>set wp. 0 \<le> x"
    and "0 \<le> cap" and "0 \<le> pw" and "0 < round_trip_efficiency kw"
  shows "\<exists>f. sankey_flows ledger = Inr f \<and>
     solar_to_battery f + wind_to_battery f = total_battery_charge_gwh ledger \<and>
     solar_to_grid f + wind_to_grid f = total_grid_sell_gwh ledger \<and>
     solar_to_load f + wind_to_load f + grid_to_load f + battery_to_load f
       = total_load_consumption_gwh ledger"
proof -
  from attribution_loop_conserves [OF run_simulation_balanced [OF assms], of zero_totals]
  obtain acc where
    loop: "attribution_loop zero_totals ledger = Inr acc"
    and b: "solar_to_battery acc + wind_to_battery acc = sum_list (map battery_charge_kw ledger)"
    and g: "solar_to_grid acc + wind_to_grid acc = sum_list (map grid_sell_kw ledger)"
    and l: "solar_to_load acc + wind_to_load acc + grid_to_load acc + battery_to_load acc
              = sum_list (map mine_load_kw ledger)"
    by (auto simp: zero_totals_def)
  have "sankey_flows ledger = Inr (to_gwh acc)"
    by (simp add: sankey_flows_def loop)
  moreover have "solar_to_battery (to_gwh acc) + wind_to_battery (to_gwh acc)
                   = total_battery_charge_gwh ledger"
    unfolding total_battery_charge_gwh_def b [symmetric]
    by (simp add: to_gwh_def add_divide_distrib)
  moreover have "solar_to_grid (to_gwh acc) + wind_to_grid (to_gwh acc)
                   = total_grid_sell_gwh ledger"
    unfolding total_grid_sell_gwh_def g [symmetric]
    by (simp add: to_gwh_def add_divide_distrib)
  moreover have "solar_to_load (to_gwh acc) + wind_to_load (to_gwh acc)
                   + grid_to_load (to_gwh acc) + battery_to_load (to_gwh acc)
                   = total_load_consumption_gwh ledger"
    unfolding total_load_consumption_gwh_def l [symmetric]
    by (simp add: to_gwh_def add_divide_distrib)
  ultimately show ?thesis by blast
qed

lemmas flows_eval = sankey_flows_def attribute_hour_def truediv_def to_gwh_def zero_totals_def
  total_battery_charge_gwh_def total_grid_sell_gwh_def total_load_consumption_gwh_def Let_def

theorem C9_attribution_conservation_witness:
  "(let ledger = projr (run_simulation [100, 20] [30, 50] [0, 10] 1 (1 / 100) Map.empty);
        f = projr (sankey_flows ledger)
    in run_simulation [100, 20] [30, 50] [0, 10] 1 (1 / 100) Map.empty = Inr ledger \<and>
       (\<forall>x\<in>set [100, 20 :: real]. 0 \<le> x) \<and> (\<forall>x\<in>set [30, 50 :: real]. 0 \<le> x) \<and>
       (\<forall>x\<in>set [0, 10 :: real]. 0 \<le> x) \<and>
       (0::real) \<le> 1 \<and> (0::real) \<le> 1 / 100 \<and> 0 < round_trip_efficiency Map.empty \<and>
       sankey_flows ledger = Inr f \<and>
       solar_to_battery f + wind_to_battery f = 10 / 1000000 \<and>
       total_battery_charge_gwh ledger = 10 / 1000000 \<and>
       solar_to_grid f + wind_to_grid f = 30 / 1000000 \<and>
       total_grid_sell_gwh ledger = 30 / 1000000 \<and>
       solar_to_load f + wind_to_load f + grid_to_load f + battery_to_load f = 120 / 1000000 \<and>
       total_load_consumption_gwh ledger = 120 / 1000000)"
proof -
  have eta: "0 < round_trip_efficiency Map.empty"
    by (simp add: round_trip_efficiency_def kwargs_get_def)
  from C9_attribution_conservation [OF two_hour_run _ _ _ _ _ eta] eta
  show ?thesis by (simp add: two_hour_run flows_eval)
qed

section \<open>Bounds in exact arithmetic\<close>

text \<open>
  If the arithmetic were exact, the \<open>min\<close> terms of the step would keep every row of a
  successful run within the battery's limits, for capacity \<open>\<ge> 0\<close>, maximum power \<open>\<ge> 0\<close> and
  efficiency \<open>> 0\<close>: state of charge within \<open>[0, capacity]\<close>, charge and discharge within
  the maximum power, charge times discharge and import times export equal to 0.
\<close>

lemma ledger_bounds_exact:
  assumes "run_simulation ml sp wp cap pw kw = Inr ledger"
    and "0 \<le> cap" and "0 \<le> pw" and "0 < round_trip_efficiency kw"
    and "i < length ledger"
  shows "0 \<le> battery_soc_kwh (ledger ! i) \<and> battery_soc_kwh (ledger ! i) \<le> cap * 1000 \<and>
         battery_charge_kw (ledger ! i) \<le> pw * 1000 \<and>
         battery_discharge_kw (ledger ! i) \<le> pw * 1000 \<and>
         battery_charge_kw (ledger ! i) * battery_discharge_kw (ledger ! i) = 0 \<and>
         grid_buy_kw (ledger ! i) * grid_sell_kw (ledger ! i) = 0"
proof -
  note step = run_simulation_rows(3) [OF assms(1,5)]
  from run_simulation_soc_range [OF assms]
  have prev: "0 \<le> soc_before (cap * 1000 * (5 / 10)) ledger i"
    "soc_before (cap * 1000 * (5 / 10)) ledger i \<le> cap * 1000"
    by simp_all
  have P: "0 \<le> pw * 1000" using assms(3) by simp
  note b = simulate_hour_bounds [OF step prev P assms(4)]
  have excl: "battery_charge_kw (ledger ! i) * battery_discharge_kw (ledger ! i) = 0 \<and>
         grid_buy_kw (ledger ! i) * grid_sell_kw (ledger ! i) = 0"
  proof (cases "0 < net_load_kw (ledger ! i)")
    case True
    from simulate_hour_deficit(4,5) [OF step True] show ?thesis by simp
  next
    case False
    from simulate_hour_surplus(5,6) [OF step False] show ?thesis by simp
  qed
  show ?thesis using b(1,2,4,6) excl by simp
qed

text \<open>Under the same conditions the four flows of every row would be nonnegative.\<close>

lemma flows_nonnegative_exact:
  assumes "run_simulation ml sp wp cap pw kw = Inr ledger"
    and "0 \<le> cap" and "0 \<le> pw" and "0 < round_trip_efficiency kw"
    and "i < length ledger"
  shows "0 \<le> battery_charge_kw (ledger ! i) \<and> 0 \<le> battery_discharge_kw (ledger ! i) \<and>
         0 \<le> grid_buy_kw (ledger ! i) \<and> 0 \<le> grid_sell_kw (ledger ! i)"
proof -
  note step = run_simulation_rows(3) [OF assms(1,5)]
  from run_simulation_soc_range [OF assms]
  have prev: "0 \<le> soc_before (cap * 1000 * (5 / 10)) ledger i"
    "soc_before (cap * 1000 * (5 / 10)) ledger i \<le> cap * 1000"
    by simp_all
  have P: "0 \<le> pw * 1000" using assms(3) by simp
  from simulate_hour_bounds(3,5,7,8) [OF step prev P assms(4)]
  show ?thesis by simp
qed

section \<open>Bounds in double precision\<close>

lemmas binade_num =
  binade.simps [where k = "numeral k" and x = "numeral a" for k a]
  binade.simps [where k = "numeral k" and x = "numeral a / numeral b" for k a b]
  binade.simps [where k = "numeral k" and x = "1 / numeral b" for k b]
  binade.simps [where k = "numeral k" and x = 1 for k]
  binade.simps [where k = 1 and x = "numeral a" for a]
  binade.simps [where k = 1 and x = "numeral a / numeral b" for a b]
  binade.simps [where k = 1 and x = "1 / numeral b" for b]
  binade.simps [where k = 0]

lemmas fl_num =
  fl_def [where x = 0]
  fl_def [where x = 1]
  fl_def [where x = "- 1"]
  fl_def [where x = "numeral a" for a]
  fl_def [where x = "- numeral a" for a]
  fl_def [where x = "numeral a / numeral b" for a b]
  fl_def [where x = "- (numeral a / numeral b)" for a b]
  fl_def [where x = "1 / numeral b" for b]
  fl_def [where x = "- (1 / numeral b)" for b]

lemmas fl_eval = fl_num binade_num ulp_of_def round_half_even_def fl_add_def fl_sub_def
  fl_mul_def fl_div_def

lemmas run_f64_eval = run_simulation_f64_def simulate_hour_f64_def kwargs_get_def iloc_def
  min3_def Let_def

text \<open>The literals \<open>0.1\<close>, \<open>0.3\<close> and \<open>0.85\<close> as doubles: \<open>0x3FB999999999999A\<close>,
  \<open>0x3FD3333333333333\<close> and \<open>0x3FEB333333333333\<close>.\<close>

lemma fl_tenth: "fl (1 / 10) = 3602879701896397 / 2 ^ 55"
  by (simp add: fl_eval Let_def)

lemma fl_three_tenths: "fl (3 / 10) = 5404319552844595 / 2 ^ 54"
  by (simp add: fl_eval Let_def)

lemma fl_default_efficiency: "fl (85 / 100) = 7656119366529843 / 2 ^ 53"
  by (simp add: fl_eval Let_def)

text \<open>
  Three hours on a 15 MWh, 25 MW battery with the default prices and efficiency: the first
  hour draws 6428 kW from the battery, the next two offer 20000 kW of generation and no
  demand. The second hour leaves the state of charge at \<open>15000.000000000002\<close>; the third
  computes a charge of \<open>-2.1399875335833606e-12\<close> and exports \<open>20000.000000000004\<close>.
\<close>

lemma default_efficiency_run_f64:
  "run_simulation_f64 [6428, 0, 0] [0, 20000, 20000] [0, 0, 0] 15 25 Map.empty =
   Inr [\<lparr> mine_load_kw = 6428, solar_power_kw = 0, wind_power_kw = 0,
          renewable_total_kw = 0, net_load_kw = 6428, battery_charge_kw = 0,
          battery_discharge_kw = 6428, battery_soc_kwh = 1072,
          battery_soc_percent = 4023215667117643 / 562949953421312,
          grid_buy_kw = 0, grid_sell_kw = 0, grid_cost_usd = 0, grid_revenue_usd = 0,
          net_grid_cost_usd = 0 \<rparr>,
        \<lparr> mine_load_kw = 0, solar_power_kw = 20000, wind_power_kw = 0,
          renewable_total_kw = 20000, net_load_kw = - 20000,
          battery_charge_kw = 4504117044607097 / 274877906944,
          battery_discharge_kw = 0,
          battery_soc_kwh = 8246337208320001 / 549755813888,
          battery_soc_percent = 3518437208883201 / 35184372088832,
          grid_buy_kw = 0, grid_sell_kw = 993441094272903 / 274877906944,
          grid_cost_usd = 0,
          grid_revenue_usd = 3255307777713449 / 18014398509481984,
          net_grid_cost_usd = - (3255307777713449 / 18014398509481984) \<rparr>,
        \<lparr> mine_load_kw = 0, solar_power_kw = 20000, wind_power_kw = 0,
          renewable_total_kw = 20000, net_load_kw = - 20000,
          battery_charge_kw = - (5298352502788819 / 2475880078570760549798248448),
          battery_discharge_kw = 0, battery_soc_kwh = 15000, battery_soc_percent = 100,
          grid_buy_kw = 0, grid_sell_kw = 5497558138880001 / 274877906944,
          grid_cost_usd = 0,
          grid_revenue_usd = 4503599627370497 / 4503599627370496,
          net_grid_cost_usd = - (4503599627370497 / 4503599627370496) \<rparr>]"
  by (simp add: run_f64_eval fl_eval)

text \<open>
  The same pattern on a 0.1 MWh battery with an efficiency of 0.3: a demand of 29 kW, then
  twice 5000 kW of generation. The second hour leaves the state of charge at
  \<open>100.00000000000001\<close>, the third computes a charge of \<open>-4.7369515717340014e-14\<close>.
\<close>

lemma low_efficiency_run_f64:
  "run_simulation_f64 [29, 0, 0] [0, 5000, 5000] [0, 0, 0] (fl (1 / 10)) 1
     [''round_trip_efficiency'' \<mapsto> fl (3 / 10)] =
   Inr [\<lparr> mine_load_kw = 29, solar_power_kw = 0, wind_power_kw = 0,
          renewable_total_kw = 0, net_load_kw = 29, battery_charge_kw = 0,
          battery_discharge_kw = 29, battery_soc_kwh = 21, battery_soc_percent = 21,
          grid_buy_kw = 0, grid_sell_kw = 0, grid_cost_usd = 0, grid_revenue_usd = 0,
          net_grid_cost_usd = 0 \<rparr>,
        \<lparr> mine_load_kw = 0, solar_power_kw = 5000, wind_power_kw = 0,
          renewable_total_kw = 5000, net_load_kw = - 5000,
          battery_charge_kw = 2316304495848107 / 8796093022208,
          battery_discharge_kw = 0,
          battery_soc_kwh = 7036874417766401 / 70368744177664,
          battery_soc_percent = 3518437208883201 / 35184372088832,
          grid_buy_kw = 0, grid_sell_kw = 5208020076898987 / 1099511627776,
          grid_cost_usd = 0,
          grid_revenue_usd = 8532820093991301 / 36028797018963968,
          net_grid_cost_usd = - (8532820093991301 / 36028797018963968) \<rparr>,
        \<lparr> mine_load_kw = 0, solar_power_kw = 5000, wind_power_kw = 0,
          renewable_total_kw = 5000, net_load_kw = - 5000,
          battery_charge_kw = - (7505999378950827 / 158456325028528675187087900672),
          battery_discharge_kw = 0, battery_soc_kwh = 100, battery_soc_percent = 100,
          grid_buy_kw = 0, grid_sell_kw = 5000, grid_cost_usd = 0,
          grid_revenue_usd = 1 / 4, net_grid_cost_usd = - (1 / 4) \<rparr>]"
  by (simp add: run_f64_eval fl_eval)

text \<open>
  C2. The claim keeps the state of charge of every ledger row within \<open>[0, capacity]\<close> for
  every valid configuration and nonnegative input. The engine bounds the charge by
  \<open>(capacity - SoC) / \<eta>\<close> and then credits charge times \<open>\<eta>\<close>; in doubles the quotient and
  the product are both rounded, and the credited energy can exceed the room that was left.
  In both runs above the second row records a state of charge one unit in the last place
  above the capacity: \<open>15000 + 2 ^ -39\<close> against 15000 kWh, and \<open>100 + 2 ^ -46\<close> against
  100 kWh.
\<close>

theorem C2_soc_exceeds_capacity_f64:
  "(let ledger = projr (run_simulation_f64 [6428, 0, 0] [0, 20000, 20000] [0, 0, 0] 15 25
                          Map.empty);
        capacity_kwh = fl_mul 15 1000
    in run_simulation_f64 [6428, 0, 0] [0, 20000, 20000] [0, 0, 0] 15 25 Map.empty
         = Inr ledger \<and>
       capacity_kwh = 15000 \<and>
       battery_soc_kwh (ledger ! 1) = 15000 + 1 / 2 ^ 39 \<and>
       capacity_kwh < battery_soc_kwh (ledger ! 1)) \<and>
   (let ledger = projr (run_simulation_f64 [29, 0, 0] [0, 5000, 5000] [0, 0, 0] (fl (1 / 10)) 1
                          [''round_trip_efficiency'' \<mapsto> fl (3 / 10)]);
        capacity_kwh = fl_mul (fl (1 / 10)) 1000
    in run_simulation_f64 [29, 0, 0] [0, 5000, 5000] [0, 0, 0] (fl (1 / 10)) 1
         [''round_trip_efficiency'' \<mapsto> fl (3 / 10)] = Inr ledger \<and>
       capacity_kwh = 100 \<and>
       battery_soc_kwh (ledger ! 1) = 100 + 1 / 2 ^ 46 \<and>
       capacity_kwh < battery_soc_kwh (ledger ! 1))"
proof -
  have capacity: "fl_mul 15 1000 = 15000" "fl_mul (fl (1 / 10)) 1000 = 100"
    by (simp_all add: fl_eval Let_def)
  show ?thesis
    unfolding Let_def default_efficiency_run_f64 low_efficiency_run_f64 capacity
    by simp
qed

text \<open>
  C10. The claim makes the four flows of every ledger row nonnegative for every valid
  configuration and nonnegative input. Once the state of charge stands above the capacity
  (the rounding of C2), the next surplus hour computes its charge from a negative room: the
  third row of both runs above records a negative \<open>battery_charge_kw\<close>,
  \<open>-5298352502788819 / 2 ^ 91\<close> and \<open>-7505999378950827 / 2 ^ 97\<close>.
\<close>

theorem C10_negative_charge_f64:
  "(let ledger = projr (run_simulation_f64 [6428, 0, 0] [0, 20000, 20000] [0, 0, 0] 15 25
                          Map.empty)
    in run_simulation_f64 [6428, 0, 0] [0, 20000, 20000] [0, 0, 0] 15 25 Map.empty
         = Inr ledger \<and>
       battery_charge_kw (ledger ! 2) = - (5298352502788819 / 2 ^ 91) \<and>
       battery_charge_kw (ledger ! 2) < 0) \<and>
   (let ledger = projr (run_simulation_f64 [29, 0, 0] [0, 5000, 5000] [0, 0, 0] (fl (1 / 10)) 1
                          [''round_trip_efficiency'' \<mapsto> fl (3 / 10)])
    in run_simulation_f64 [29, 0, 0] [0, 5000, 5000] [0, 0, 0] (fl (1 / 10)) 1
         [''round_trip_efficiency'' \<mapsto> fl (3 / 10)] = Inr ledger \<and>
       battery_charge_kw (ledger ! 2) = - (7505999378950827 / 2 ^ 97) \<and>
       battery_charge_kw (ledger ! 2) < 0)"
  by (simp add: Let_def default_efficiency_run_f64 low_efficiency_run_f64)

end
